theory Spec2Isabelle
  imports Complex_Main
begin

section \<open>Path model\<close>

text \<open>
  The shape context of the converter (\<^verbatim>\<open>conversion/context/shape.h\<close>) collects the
  path commands that SVG++ emits for one shape element, resolves the \<^verbatim>\<open>fill\<close>,
  \<^verbatim>\<open>stroke\<close> and \<^verbatim>\<open>stroke-dasharray\<close> attributes, and on element exit hands the
  finished outline to the exporter. Coordinates are \<^verbatim>\<open>double\<close> in the source; they are
  modelled as \<^typ>\<open>real\<close>, the "real-valued coordinates" of the data model, so rounding
  is outside this development.
\<close>

type_synonym point = "real \<times> real"

text \<open>
  The four commands the shape context constructs: \<^verbatim>\<open>MoveCommand{{x, y}}\<close>,
  \<^verbatim>\<open>LineCommand{{x, y}}\<close>, \<^verbatim>\<open>BezierCommand{{x, y}, {x1, y1}, {x2, y2}}\<close> (end point
  first, then the two control points) and \<^verbatim>\<open>CloseSubpathCommand{}\<close>.
\<close>

datatype PathCommand =
    MoveCommand point
  | LineCommand point
  | BezierCommand point point point
  | CloseSubpathCommand

type_synonym Path = "PathCommand list"

text \<open>
  Modelled from the spec: \<^verbatim>\<open>Path::push_command\<close> of \<^verbatim>\<open>path.h\<close>, which is not among
  the sources. It "appends one PathCommand, no validation performed".
\<close>

definition push_command :: "Path \<Rightarrow> PathCommand \<Rightarrow> Path" where
  "push_command p cmd = p @ [cmd]"

subsection \<open>Affine transforms\<close>

text \<open>
  Modelled from the spec: the transform type and \<^verbatim>\<open>Path::transform\<close> are declared in
  \<^verbatim>\<open>math_defs.h\<close> and \<^verbatim>\<open>path.h\<close>, which are not among the sources. A transform is an
  "affine 2D matrix (translation, rotation, scale, skew)": the linear part
  \<open>(m11 m12 / m21 m22)\<close> and the translation \<open>(tx, ty)\<close>.
\<close>

record Transform =
  m11 :: real
  m12 :: real
  m21 :: real
  m22 :: real
  tx :: real
  ty :: real

definition identity :: Transform where
  "identity = \<lparr>m11 = 1, m12 = 0, m21 = 0, m22 = 1, tx = 0, ty = 0\<rparr>"

definition apply_point :: "Transform \<Rightarrow> point \<Rightarrow> point" where
  "apply_point T p =
     (m11 T * fst p + m12 T * snd p + tx T, m21 T * fst p + m22 T * snd p + ty T)"

text \<open>\<open>compose T2 T1\<close> is the matrix product \<open>T2 * T1\<close>: first \<open>T1\<close>, then \<open>T2\<close>.\<close>

definition compose :: "Transform \<Rightarrow> Transform \<Rightarrow> Transform" where
  "compose T2 T1 =
     \<lparr>m11 = m11 T2 * m11 T1 + m12 T2 * m21 T1,
      m12 = m11 T2 * m12 T1 + m12 T2 * m22 T1,
      m21 = m21 T2 * m11 T1 + m22 T2 * m21 T1,
      m22 = m21 T2 * m12 T1 + m22 T2 * m22 T1,
      tx = m11 T2 * tx T1 + m12 T2 * ty T1 + tx T2,
      ty = m21 T2 * tx T1 + m22 T2 * ty T1 + ty T2\<rparr>"

definition determinant :: "Transform \<Rightarrow> real" where
  "determinant T = m11 T * m22 T - m12 T * m21 T"

text \<open>
  Modelled from the spec: the inverse of an affine transform, which the library of the
  transform type computes: the inverse of the linear part, and the translation carried
  through it. The source calls it without a check of the determinant; for a singular
  transform the value below is the one HOL's total division gives and nothing is proved
  about it.
\<close>

definition inverse_transform_of :: "Transform \<Rightarrow> Transform" where
  "inverse_transform_of T =
     (let det = determinant T;
          a = m22 T / det; b = - m12 T / det;
          c = - m21 T / det; d = m11 T / det
      in \<lparr>m11 = a, m12 = b, m21 = c, m22 = d,
          tx = - (a * tx T + b * ty T),
          ty = - (c * tx T + d * ty T)\<rparr>)"

text \<open>
  Modelled from the spec: \<^verbatim>\<open>Path::transform\<close> of \<^verbatim>\<open>path.h\<close>, which "rewrites every
  coordinate-bearing command in place under T; CloseSubpath is unaffected (carries no
  coordinates)".
\<close>

fun transform_command :: "Transform \<Rightarrow> PathCommand \<Rightarrow> PathCommand" where
  "transform_command T (MoveCommand p) = MoveCommand (apply_point T p)"
| "transform_command T (LineCommand p) = LineCommand (apply_point T p)"
| "transform_command T (BezierCommand p c1 c2) =
     BezierCommand (apply_point T p) (apply_point T c1) (apply_point T c2)"
| "transform_command T CloseSubpathCommand = CloseSubpathCommand"

definition transform :: "Path \<Rightarrow> Transform \<Rightarrow> Path" where
  "transform p T = map (transform_command T) p"

section \<open>The shape context\<close>

text \<open>
  The members of \<^verbatim>\<open>ShapeContext\<close>: \<^verbatim>\<open>path_\<close>, \<^verbatim>\<open>dasharray_\<close>,
  \<^verbatim>\<open>fill_fragment_iri_\<close> and \<^verbatim>\<open>stroke_\<close> (written with the prefix \<open>m_\<close>, since a name
  cannot end with an underscore here), and what it reads from its base class at element
  exit, the composed transform \<^verbatim>\<open>to_root()\<close>. The base class is not among the sources:
  the composed transform is a field that no handler of the shape context changes.
\<close>

record ShapeContext =
  to_root :: Transform
  m_path :: Path
  m_dasharray :: "real list"
  m_fill_fragment_iri :: string
  m_stroke :: bool

text \<open>
  The constructor only initialises the base class from the parent; the members take
  their default initialisers: an empty path, an empty dasharray, an empty IRI and
  \<^verbatim>\<open>stroke_ = true\<close>.
\<close>

definition ShapeContext_new :: "Transform \<Rightarrow> ShapeContext" where
  "ShapeContext_new parent_to_root =
     \<lparr>to_root = parent_to_root, m_path = [], m_dasharray = [],
      m_fill_fragment_iri = [], m_stroke = True\<rparr>"

definition outline_path :: "ShapeContext \<Rightarrow> Path" where
  "outline_path c = m_path c"

subsection \<open>Geometry events\<close>

definition path_move_to :: "real \<Rightarrow> real \<Rightarrow> ShapeContext \<Rightarrow> ShapeContext" where
  "path_move_to x y c = c\<lparr>m_path := push_command (m_path c) (MoveCommand (x, y))\<rparr>"

definition path_line_to :: "real \<Rightarrow> real \<Rightarrow> ShapeContext \<Rightarrow> ShapeContext" where
  "path_line_to x y c = c\<lparr>m_path := push_command (m_path c) (LineCommand (x, y))\<rparr>"

definition path_cubic_bezier_to ::
  "real \<Rightarrow> real \<Rightarrow> real \<Rightarrow> real \<Rightarrow> real \<Rightarrow> real \<Rightarrow> ShapeContext \<Rightarrow> ShapeContext" where
  "path_cubic_bezier_to x1 y1 x2 y2 x y c =
     c\<lparr>m_path := push_command (m_path c) (BezierCommand (x, y) (x1, y1) (x2, y2))\<rparr>"

definition path_close_subpath :: "ShapeContext \<Rightarrow> ShapeContext" where
  "path_close_subpath c = c\<lparr>m_path := push_command (m_path c) CloseSubpathCommand\<rparr>"

definition path_exit :: "ShapeContext \<Rightarrow> ShapeContext" where
  "path_exit c = c"

subsection \<open>Elements and attributes\<close>

text \<open>
  The element and attribute tags of SVG++ that the converter names, and one constructor
  for every other tag of the library.
\<close>

datatype element =
    element_path | element_rect | element_circle | element_ellipse | element_line
  | element_polyline | element_polygon
  | element_svg | element_g | element_pattern
  | element_other string

datatype attribute =
    attribute_d
  | attribute_x | attribute_y | attribute_width | attribute_height
  | attribute_rx | attribute_ry | attribute_cx | attribute_cy | attribute_r
  | attribute_x1 | attribute_y1 | attribute_x2 | attribute_y2
  | attribute_points
  | attribute_transform | attribute_fill | attribute_stroke | attribute_stroke_dasharray
  | attribute_other string

text \<open>\<^verbatim>\<open>svgpp::attribute_name<char>::get<AttributeTag>()\<close>, the name as written in a document.\<close>

fun attribute_name :: "attribute \<Rightarrow> string" where
  "attribute_name attribute_d = ''d''"
| "attribute_name attribute_x = ''x''"
| "attribute_name attribute_y = ''y''"
| "attribute_name attribute_width = ''width''"
| "attribute_name attribute_height = ''height''"
| "attribute_name attribute_rx = ''rx''"
| "attribute_name attribute_ry = ''ry''"
| "attribute_name attribute_cx = ''cx''"
| "attribute_name attribute_cy = ''cy''"
| "attribute_name attribute_r = ''r''"
| "attribute_name attribute_x1 = ''x1''"
| "attribute_name attribute_y1 = ''y1''"
| "attribute_name attribute_x2 = ''x2''"
| "attribute_name attribute_y2 = ''y2''"
| "attribute_name attribute_points = ''points''"
| "attribute_name attribute_transform = ''transform''"
| "attribute_name attribute_fill = ''fill''"
| "attribute_name attribute_stroke = ''stroke''"
| "attribute_name attribute_stroke_dasharray = ''stroke-dasharray''"
| "attribute_name (attribute_other n) = n"

subsection \<open>Calls on the collaborators\<close>

text \<open>
  A handler of the context changes the context's members and calls its collaborators:
  the logger while attributes are set; the document's id lookup, the traversal engine
  and the exporter at element exit. Each handler returns the calls it makes, in order,
  so that what was called, how often and in which order can be stated. \<open>'n\<close> is the
  type of document nodes.
\<close>

text \<open>
  Modelled from the spec: \<^verbatim>\<open>DashedPath\<close> of \<^verbatim>\<open>dashes.h\<close>, which is not among the
  sources, is the record "{path: Path, dashes: DashArray, inverse_transform: Transform}";
  the source constructs it from these three values in this order.
\<close>

datatype log_entry =
    LoggerWarn string
  | LoggerDebug string

record DashedPath =
  path :: Path
  dashes :: "real list"
  inverse_transform :: Transform

datatype 'n call =
    FindById string
  | LoadReferencedElement "'n option" Path
  | ExporterPlot DashedPath
  | ExporterPlotPath Path "real list"

subsection \<open>Paint attributes\<close>

text \<open>
  The argument packs with which SVG++ calls \<^verbatim>\<open>set\<close> for a paint attribute
  (\<^verbatim>\<open>fill\<close>, \<^verbatim>\<open>stroke\<close>) after the attribute tag: \<^verbatim>\<open>inherit\<close>, \<^verbatim>\<open>none\<close>,
  \<^verbatim>\<open>currentColor\<close>, a colour (an \<^verbatim>\<open>int\<close>), a colour with the skipped ICC colour, an IRI
  (whole, or \<^verbatim>\<open>tag::iri_fragment\<close> and the fragment), and an IRI followed by a fallback.
\<close>

datatype fallback =
    fallback_none
  | fallback_currentColor
  | fallback_color int
  | fallback_color_skip_icc int

datatype paint =
    value_inherit
  | value_none
  | value_currentColor
  | color int
  | color_skip_icc int
  | iri string
  | iri_fragment string
  | iri_with_fallback string fallback
  | iri_fragment_with_fallback string fallback

text \<open>
  \<^verbatim>\<open>detail::warn_unsupported_paint_server\<close>: the overload for \<^verbatim>\<open>(int)\<close> and
  \<^verbatim>\<open>(int, skip_icc_color)\<close> logs at debug level, the variadic one warns.
\<close>

fun warn_unsupported_paint_server :: "attribute \<Rightarrow> paint \<Rightarrow> log_entry list" where
  "warn_unsupported_paint_server tag (color _) =
     [LoggerDebug (''Ignoring color value for attribute '' @ attribute_name tag)]"
| "warn_unsupported_paint_server tag (color_skip_icc _) =
     [LoggerDebug (''Ignoring color value for attribute '' @ attribute_name tag)]"
| "warn_unsupported_paint_server tag _ =
     [LoggerWarn (''Unsupported value type for attribute '' @ attribute_name tag)]"

text \<open>
  The overloads of \<^verbatim>\<open>ShapeContext::set\<close>. For \<^verbatim>\<open>stroke\<close> the non-template overload
  takes \<^verbatim>\<open>none\<close>, the variadic template everything else; for \<^verbatim>\<open>fill\<close> the overloads
  for \<^verbatim>\<open>none\<close> and for \<^verbatim>\<open>(iri_fragment, id)\<close> come before the variadic template.
\<close>

definition set_stroke_dasharray_none :: "ShapeContext \<Rightarrow> ShapeContext" where
  "set_stroke_dasharray_none c = c\<lparr>m_dasharray := []\<rparr>"

definition set_stroke_dasharray :: "real list \<Rightarrow> ShapeContext \<Rightarrow> ShapeContext" where
  "set_stroke_dasharray rng c = c\<lparr>m_dasharray := rng\<rparr>"

fun set_stroke :: "paint \<Rightarrow> ShapeContext \<Rightarrow> log_entry list \<times> ShapeContext" where
  "set_stroke value_none c = ([], c\<lparr>m_stroke := False\<rparr>)"
| "set_stroke args c = (warn_unsupported_paint_server attribute_stroke args, c)"

fun set_fill :: "paint \<Rightarrow> ShapeContext \<Rightarrow> log_entry list \<times> ShapeContext" where
  "set_fill value_none c = ([], c\<lparr>m_fill_fragment_iri := []\<rparr>)"
| "set_fill (iri_fragment ident) c = ([], c\<lparr>m_fill_fragment_iri := ident\<rparr>)"
| "set_fill args c = (warn_unsupported_paint_server attribute_fill args, c)"

subsection \<open>Event sequences\<close>

text \<open>
  The events SVG++ delivers to a shape context before element exit, one constructor for
  each handler above, and the context after a sequence of them together with what was
  logged on the way.
\<close>

datatype event =
    PathMoveTo real real
  | PathLineTo real real
  | PathCubicBezierTo real real real real real real
  | PathCloseSubpath
  | PathExit
  | SetStrokeDasharrayNone
  | SetStrokeDasharray "real list"
  | SetStroke paint
  | SetFill paint

fun deliver :: "event \<Rightarrow> ShapeContext \<Rightarrow> log_entry list \<times> ShapeContext" where
  "deliver (PathMoveTo x y) c = ([], path_move_to x y c)"
| "deliver (PathLineTo x y) c = ([], path_line_to x y c)"
| "deliver (PathCubicBezierTo x1 y1 x2 y2 x y) c = ([], path_cubic_bezier_to x1 y1 x2 y2 x y c)"
| "deliver PathCloseSubpath c = ([], path_close_subpath c)"
| "deliver PathExit c = ([], path_exit c)"
| "deliver SetStrokeDasharrayNone c = ([], set_stroke_dasharray_none c)"
| "deliver (SetStrokeDasharray rng) c = ([], set_stroke_dasharray rng c)"
| "deliver (SetStroke args) c = set_stroke args c"
| "deliver (SetFill args) c = set_fill args c"

fun deliver_all :: "event list \<Rightarrow> ShapeContext \<Rightarrow> log_entry list \<times> ShapeContext" where
  "deliver_all [] c = ([], c)"
| "deliver_all (e # es) c =
     (let (logged, c') = deliver e c; (logged', c'') = deliver_all es c'
      in (logged @ logged', c''))"

definition after :: "event list \<Rightarrow> ShapeContext \<Rightarrow> ShapeContext" where
  "after es c = snd (deliver_all es c)"

subsection \<open>Element exit\<close>

text \<open>
  Modelled from the spec: the document's \<^verbatim>\<open>find_by_id\<close> is declared outside the sources;
  it is "a single document-wide lookup, find_by_id(identifier) -> optional node". The
  document is the list of its ids with their nodes.
\<close>

type_synonym 'n document = "(string \<times> 'n) list"

definition find_by_id :: "'n document \<Rightarrow> string \<Rightarrow> 'n option" where
  "find_by_id doc ident = map_of doc ident"

text \<open>
  \<^verbatim>\<open>DocumentTraversal::load_referenced_element<...>::load\<close> belongs to the traversal engine.
  It is a parameter here: given the node it is handed and the context, it returns
  normally (\<open>None\<close>) or raises (\<open>Some e\<close>). The members of the shape context are
  private and the engine calls none of its handlers during the sub-traversal, so the
  context is the same after the call. The sub-traversal is restricted to the element
  \<^verbatim>\<open>pattern\<close>.
\<close>

type_synonym ('n, 'e) engine = "'n option \<Rightarrow> ShapeContext \<Rightarrow> 'e option"



text \<open>
  \<^verbatim>\<open>ShapeContext::on_exit_element\<close>, statement by statement: the path is transformed in
  place; if the IRI is not empty, the node is looked up and handed to the engine with the
  context itself; if \<^verbatim>\<open>stroke_\<close> holds, the path, the dasharray and the inverse of
  \<^verbatim>\<open>to_root()\<close> are plotted. An exception of the engine leaves the method at once. The
  result is the calls made and the exception that left the method, if any; the context
  is destroyed after the event.
\<close>

definition on_exit_element ::
  "('n, 'e) engine \<Rightarrow> 'n document \<Rightarrow> ShapeContext \<Rightarrow> 'n call list \<times> 'e option" where
  "on_exit_element load doc c =
     (let c1 = c\<lparr>m_path := transform (m_path c) (to_root c)\<rparr>;
          (fill_calls, raised) =
            (if m_fill_fragment_iri c1 \<noteq> [] then
               let referenced_node = find_by_id doc (m_fill_fragment_iri c1)
               in ([FindById (m_fill_fragment_iri c1),
                    LoadReferencedElement referenced_node (outline_path c1)],
                   load referenced_node c1)
             else ([], None))
      in case raised of
           Some e \<Rightarrow> (fill_calls, Some e)
         | None \<Rightarrow>
             if m_stroke c1 then
               (fill_calls @
                  [ExporterPlot \<lparr>path = m_path c1, dashes = m_dasharray c1,
                     inverse_transform = inverse_transform_of (to_root c1)\<rparr>],
                None)
             else (fill_calls, None))"

text \<open>
  The source part holds an earlier revision of the header as well. Its element exit
  takes the same three steps; it reads the transform from \<^verbatim>\<open>coordinate_system()\<close>,
  hands the engine a pattern context built from the shape context and its transformed
  path, and calls \<^verbatim>\<open>plot\<close> with the path and the dasharray alone.
\<close>

definition on_exit_element_earlier ::
  "('n, 'e) engine \<Rightarrow> 'n document \<Rightarrow> ShapeContext \<Rightarrow> 'n call list \<times> 'e option" where
  "on_exit_element_earlier load doc c =
     (let c1 = c\<lparr>m_path := transform (m_path c) (to_root c)\<rparr>;
          (fill_calls, raised) =
            (if m_fill_fragment_iri c1 \<noteq> [] then
               let referenced_node = find_by_id doc (m_fill_fragment_iri c1)
               in ([FindById (m_fill_fragment_iri c1),
                    LoadReferencedElement referenced_node (m_path c1)],
                   load referenced_node c1)
             else ([], None))
      in case raised of
           Some e \<Rightarrow> (fill_calls, Some e)
         | None \<Rightarrow>
             if m_stroke c1 then
               (fill_calls @ [ExporterPlotPath (m_path c1) (m_dasharray c1)], None)
             else (fill_calls, None))"

fun earlier_call :: "'n call \<Rightarrow> 'n call" where
  "earlier_call (ExporterPlot dashed_path) =
     ExporterPlotPath (path dashed_path) (dashes dashed_path)"
| "earlier_call other = other"

text \<open>An engine whose sub-traversal always returns normally.\<close>

definition returns_normally :: "('n, 'e) engine" where
  "returns_normally referenced_node context = None"

text \<open>What a list of calls at element exit contains.\<close>

fun is_lookup :: "'n call \<Rightarrow> bool" where
  "is_lookup (FindById _) = True"
| "is_lookup _ = False"

fun is_sub_traversal :: "'n call \<Rightarrow> bool" where
  "is_sub_traversal (LoadReferencedElement _ _) = True"
| "is_sub_traversal _ = False"

text \<open>The records handed to the exporter's \<^verbatim>\<open>plot\<close>, in order.\<close>

fun plotted :: "'n call list \<Rightarrow> DashedPath list" where
  "plotted [] = []"
| "plotted (ExporterPlot dashed_path # calls) = dashed_path # plotted calls"
| "plotted (_ # calls) = plotted calls"

subsection \<open>Vocabulary of the properties\<close>

text \<open>The command a geometry event stands for; the other events stand for none.\<close>

fun command_of :: "event \<Rightarrow> PathCommand list" where
  "command_of (PathMoveTo x y) = [MoveCommand (x, y)]"
| "command_of (PathLineTo x y) = [LineCommand (x, y)]"
| "command_of (PathCubicBezierTo x1 y1 x2 y2 x y) = [BezierCommand (x, y) (x1, y1) (x2, y2)]"
| "command_of PathCloseSubpath = [CloseSubpathCommand]"
| "command_of _ = []"

text \<open>The attribute-set events for \<^verbatim>\<open>fill\<close>, \<^verbatim>\<open>stroke\<close> and \<^verbatim>\<open>stroke-dasharray\<close>.\<close>

fun is_attribute_event :: "event \<Rightarrow> bool" where
  "is_attribute_event SetStrokeDasharrayNone = True"
| "is_attribute_event (SetStrokeDasharray _) = True"
| "is_attribute_event (SetStroke _) = True"
| "is_attribute_event (SetFill _) = True"
| "is_attribute_event _ = False"

fun is_dasharray_event :: "event \<Rightarrow> bool" where
  "is_dasharray_event SetStrokeDasharrayNone = True"
| "is_dasharray_event (SetStrokeDasharray _) = True"
| "is_dasharray_event _ = False"

text \<open>
  The value kinds the context models: \<^verbatim>\<open>none\<close> for \<^verbatim>\<open>stroke\<close>; \<^verbatim>\<open>none\<close> and a
  reference by fragment for \<^verbatim>\<open>fill\<close>. Every other kind is unsupported. The simple
  colours are the kinds logged at debug level.
\<close>

fun supported_stroke :: "paint \<Rightarrow> bool" where
  "supported_stroke value_none = True"
| "supported_stroke _ = False"

fun supported_fill :: "paint \<Rightarrow> bool" where
  "supported_fill value_none = True"
| "supported_fill (iri_fragment _) = True"
| "supported_fill _ = False"

fun is_simple_color :: "paint \<Rightarrow> bool" where
  "is_simple_color (color _) = True"
| "is_simple_color (color_skip_icc _) = True"
| "is_simple_color _ = False"

fun writes_fill_reference :: "event \<Rightarrow> bool" where
  "writes_fill_reference (SetFill args) = supported_fill args"
| "writes_fill_reference _ = False"

section \<open>Registration with the traversal engine\<close>









section \<open>A translation, for the examples\<close>

definition translate :: "real \<Rightarrow> real \<Rightarrow> Transform" where
  "translate dx dy = \<lparr>m11 = 1, m12 = 0, m21 = 0, m22 = 1, tx = dx, ty = dy\<rparr>"

section \<open>Properties\<close>

subsection \<open>Event sequences, one event at a time\<close>

lemma after_Nil: "after [] c = c"
  by (simp add: after_def)

lemma after_Cons: "after (e # es) c = after es (snd (deliver e c))"
  by (simp add: after_def split: prod.splits)

lemma after_append: "after (es1 @ es2) c = after es2 (after es1 c)"
  by (induction es1 arbitrary: c) (simp_all add: after_Nil after_Cons)

lemma set_stroke_path: "m_path (snd (set_stroke args c)) = m_path c"
  by (cases args) simp_all

lemma set_fill_path: "m_path (snd (set_fill args c)) = m_path c"
  by (cases args) simp_all

lemma deliver_path: "m_path (snd (deliver e c)) = m_path c @ command_of e"
  by (cases e)
     (simp_all add: path_move_to_def path_line_to_def path_cubic_bezier_to_def
        path_close_subpath_def path_exit_def set_stroke_dasharray_none_def
        set_stroke_dasharray_def push_command_def set_stroke_path set_fill_path)

subsection \<open>The accumulated path\<close>

lemma after_path: "m_path (after es c) = m_path c @ concat (map command_of es)"
  by (induction es arbitrary: c) (simp_all add: after_Nil after_Cons deliver_path)

text \<open>
  Claim C7. Whatever events a shape context receives, its path afterwards is the path
  it had, followed by the commands of the geometry events, one command for each event
  (\<^verbatim>\<open>Move\<close>, \<^verbatim>\<open>Line\<close>, \<^verbatim>\<open>CubicBezier\<close>, \<^verbatim>\<open>CloseSubpath\<close>, with the coordinates of
  the event), in the order in which the events arrived: nothing is checked, reordered,
  inserted or dropped, and the attribute events leave the path alone. For a context
  that starts empty the path is exactly the commands of the events.
\<close>

theorem path_preserves_event_order:
  "m_path (after es c) = m_path c @ concat (map command_of es) \<and>
   m_path (after es (ShapeContext_new T)) = concat (map command_of es)"
  by (simp add: after_path ShapeContext_new_def)

subsection \<open>Transforming a path\<close>

lemma apply_point_compose: "apply_point T2 (apply_point T1 p) = apply_point (compose T2 T1) p"
  by (simp add: apply_point_def compose_def algebra_simps)

lemma transform_command_compose:
  "transform_command T2 (transform_command T1 cmd) = transform_command (compose T2 T1) cmd"
  by (cases cmd) (simp_all add: apply_point_compose)

text \<open>
  Claim C6. Transforming a path with \<open>T1\<close> and then with \<open>T2\<close> gives the same path as
  transforming it once with the composed transform \<open>T2 \<circ> T1\<close>.
\<close>

theorem transform_twice_is_composition:
  "transform (transform P T1) T2 = transform P (compose T2 T1)"
  by (simp add: transform_def transform_command_compose)

text \<open>The inverse undoes a transform whose determinant is not zero.\<close>

lemma inverse_left:
  assumes "determinant T \<noteq> 0"
  shows "compose (inverse_transform_of T) T = identity"
proof -
  define d where "d = determinant T"
  have d: "d \<noteq> 0" and dd: "m11 T * m22 T - m12 T * m21 T = d"
    using assms by (simp_all add: d_def determinant_def)
  have a: "m22 T / d * m11 T + - m12 T / d * m21 T = 1"
  proof -
    have "m22 T / d * m11 T + - m12 T / d * m21 T = (m11 T * m22 T - m12 T * m21 T) / d"
      by (simp add: diff_divide_distrib)
    then show ?thesis using d dd by simp
  qed
  have b: "m22 T / d * m12 T + - m12 T / d * m22 T = 0"
    by simp
  have c: "- m21 T / d * m11 T + m11 T / d * m21 T = 0"
    by simp
  have e: "- m21 T / d * m12 T + m11 T / d * m22 T = 1"
  proof -
    have "- m21 T / d * m12 T + m11 T / d * m22 T = (m11 T * m22 T - m12 T * m21 T) / d"
      by (simp add: diff_divide_distrib)
    then show ?thesis using d dd by simp
  qed
  show ?thesis
    unfolding compose_def inverse_transform_of_def identity_def Let_def d_def [symmetric]
    using a b c e by (simp add: algebra_simps)
qed

subsection \<open>What an event leaves alone\<close>

lemma set_stroke_to_root: "to_root (snd (set_stroke args c)) = to_root c"
  by (cases args) simp_all

lemma set_fill_to_root: "to_root (snd (set_fill args c)) = to_root c"
  by (cases args) simp_all

lemma deliver_to_root: "to_root (snd (deliver e c)) = to_root c"
  by (cases e)
     (simp_all add: path_move_to_def path_line_to_def path_cubic_bezier_to_def
        path_close_subpath_def path_exit_def set_stroke_dasharray_none_def
        set_stroke_dasharray_def set_stroke_to_root set_fill_to_root)

lemma after_to_root: "to_root (after es c) = to_root c"
  by (induction es arbitrary: c) (simp_all add: after_Nil after_Cons deliver_to_root)

lemma set_stroke_flag: "m_stroke (snd (set_stroke args c)) = (m_stroke c \<and> args \<noteq> value_none)"
  by (cases args) simp_all

lemma set_fill_flag: "m_stroke (snd (set_fill args c)) = m_stroke c"
  by (cases args) simp_all

lemma deliver_stroke: "m_stroke (snd (deliver e c)) = (m_stroke c \<and> e \<noteq> SetStroke value_none)"
  by (cases e)
     (simp_all add: path_move_to_def path_line_to_def path_cubic_bezier_to_def
        path_close_subpath_def path_exit_def set_stroke_dasharray_none_def
        set_stroke_dasharray_def set_stroke_flag set_fill_flag)

lemma after_stroke: "m_stroke (after es c) = (m_stroke c \<and> SetStroke value_none \<notin> set es)"
  by (induction es arbitrary: c) (auto simp add: after_Nil after_Cons deliver_stroke)

lemma set_stroke_dasharray_kept: "m_dasharray (snd (set_stroke args c)) = m_dasharray c"
  by (cases args) simp_all

lemma set_fill_dasharray_kept: "m_dasharray (snd (set_fill args c)) = m_dasharray c"
  by (cases args) simp_all

lemma deliver_dasharray:
  "\<not> is_dasharray_event e \<Longrightarrow> m_dasharray (snd (deliver e c)) = m_dasharray c"
  by (cases e)
     (simp_all add: path_move_to_def path_line_to_def path_cubic_bezier_to_def
        path_close_subpath_def path_exit_def set_stroke_dasharray_kept set_fill_dasharray_kept)

lemma after_dasharray:
  "\<forall>e\<in>set es. \<not> is_dasharray_event e \<Longrightarrow> m_dasharray (after es c) = m_dasharray c"
  by (induction es arbitrary: c) (simp_all add: after_Nil after_Cons deliver_dasharray)

lemma set_stroke_fill_kept: "m_fill_fragment_iri (snd (set_stroke args c)) = m_fill_fragment_iri c"
  by (cases args) simp_all

lemma set_fill_unsupported:
  "\<not> supported_fill args \<Longrightarrow> m_fill_fragment_iri (snd (set_fill args c)) = m_fill_fragment_iri c"
  by (cases args) simp_all

lemma deliver_fill:
  "\<not> writes_fill_reference e \<Longrightarrow> m_fill_fragment_iri (snd (deliver e c)) = m_fill_fragment_iri c"
  by (cases e)
     (simp_all add: path_move_to_def path_line_to_def path_cubic_bezier_to_def
        path_close_subpath_def path_exit_def set_stroke_dasharray_none_def
        set_stroke_dasharray_def set_stroke_fill_kept set_fill_unsupported)

lemma after_fill:
  "\<forall>e\<in>set es. \<not> writes_fill_reference e \<Longrightarrow> m_fill_fragment_iri (after es c) = m_fill_fragment_iri c"
  by (induction es arbitrary: c) (simp_all add: after_Nil after_Cons deliver_fill)

lemma attribute_event_kinds:
  "\<not> is_attribute_event e \<Longrightarrow>
   \<not> is_dasharray_event e \<and> \<not> writes_fill_reference e \<and> e \<noteq> SetStroke value_none"
  by (cases e) simp_all

lemma after_last_write:
  "after (es1 @ e # es2) c = after es2 (snd (deliver e (after es1 c)))"
  by (simp add: after_append after_Cons)

subsection \<open>Element exit, case by case\<close>

lemma on_exit_element_calls_no_stroke:
  "\<not> m_stroke c \<Longrightarrow>
   fst (on_exit_element load doc c) =
     (if m_fill_fragment_iri c = [] then []
      else [FindById (m_fill_fragment_iri c),
            LoadReferencedElement (find_by_id doc (m_fill_fragment_iri c))
              (transform (m_path c) (to_root c))])"
  by (simp add: on_exit_element_def outline_path_def Let_def split: option.splits)

lemma on_exit_element_no_fill:
  "m_fill_fragment_iri c = [] \<Longrightarrow>
   on_exit_element load doc c =
     (if m_stroke c then
        [ExporterPlot \<lparr>path = transform (m_path c) (to_root c), dashes = m_dasharray c,
           inverse_transform = inverse_transform_of (to_root c)\<rparr>]
      else [], None)"
  by (simp add: on_exit_element_def Let_def)

lemma on_exit_element_fill:
  "m_fill_fragment_iri c \<noteq> [] \<Longrightarrow>
   on_exit_element load doc c =
     (case load (find_by_id doc (m_fill_fragment_iri c))
             (c\<lparr>m_path := transform (m_path c) (to_root c)\<rparr>) of
        None \<Rightarrow>
          ([FindById (m_fill_fragment_iri c),
            LoadReferencedElement (find_by_id doc (m_fill_fragment_iri c))
              (transform (m_path c) (to_root c))] @
           (if m_stroke c then
              [ExporterPlot \<lparr>path = transform (m_path c) (to_root c), dashes = m_dasharray c,
                 inverse_transform = inverse_transform_of (to_root c)\<rparr>]
            else []), None)
      | Some e \<Rightarrow>
          ([FindById (m_fill_fragment_iri c),
            LoadReferencedElement (find_by_id doc (m_fill_fragment_iri c))
              (transform (m_path c) (to_root c))], Some e))"
  by (simp add: on_exit_element_def outline_path_def Let_def split: option.splits)

text \<open>
  The earlier revision makes the same calls in the same order; only the plotted record
  lacks the inverse transform.
\<close>

lemma on_exit_element_earlier_calls:
  "on_exit_element_earlier load doc c =
     (map earlier_call (fst (on_exit_element load doc c)), snd (on_exit_element load doc c))"
  by (simp add: on_exit_element_earlier_def on_exit_element_def outline_path_def Let_def
      split: option.splits)

text \<open>An exception of the engine leaves element exit after the two calls of fill resolution.\<close>

lemma on_exit_element_raises:
  "snd (on_exit_element load doc c) = Some e \<Longrightarrow>
   m_fill_fragment_iri c \<noteq> [] \<and>
   load (find_by_id doc (m_fill_fragment_iri c))
     (c\<lparr>m_path := transform (m_path c) (to_root c)\<rparr>) = Some e \<and>
   plotted (fst (on_exit_element load doc c)) = []"
  by (cases "m_fill_fragment_iri c = []")
     (auto simp add: on_exit_element_no_fill on_exit_element_fill split: option.splits)

lemma plotted_dashes:
  "\<forall>dashed_path\<in>set (plotted (fst (on_exit_element load doc c))).
     dashes dashed_path = m_dasharray c"
  by (cases "m_fill_fragment_iri c = []")
     (simp_all add: on_exit_element_no_fill on_exit_element_fill split: option.splits)

lemma no_fill_no_lookup:
  "m_fill_fragment_iri c = [] \<Longrightarrow>
   \<not> list_ex is_lookup (fst (on_exit_element load doc c)) \<and>
   \<not> list_ex is_sub_traversal (fst (on_exit_element load doc c))"
  by (simp add: on_exit_element_no_fill)

text \<open>The simplification rules that evaluate the handlers on a given context.\<close>

lemmas handler_defs =
  after_def ShapeContext_new_def path_move_to_def path_line_to_def
  path_cubic_bezier_to_def path_close_subpath_def path_exit_def push_command_def
  set_stroke_dasharray_none_def set_stroke_dasharray_def

lemmas exit_defs =
  on_exit_element_def find_by_id_def returns_normally_def outline_path_def
  transform_def apply_point_def inverse_transform_of_def determinant_def
  translate_def identity_def

subsection \<open>Order of finalization\<close>

text \<open>
  Claim C3. When element exit returns normally, the calls it made are, in this order:
  fill resolution when the fill reference is not empty (the lookup of the id and the
  hand-over of the found node to the engine, with the outline already transformed by
  the composed transform \<^verbatim>\<open>to_root()\<close>), and then, if stroke is enabled, exactly one
  \<^verbatim>\<open>plot\<close> of the record made of the transformed path, the accumulated dasharray and
  the inverse of the composed transform; if stroke is disabled nothing is plotted.
\<close>

theorem finalization_order:
  assumes "snd (on_exit_element load doc c) = None"
  shows "fst (on_exit_element load doc c) =
     (if m_fill_fragment_iri c = [] then []
      else [FindById (m_fill_fragment_iri c),
            LoadReferencedElement (find_by_id doc (m_fill_fragment_iri c))
              (transform (m_path c) (to_root c))]) @
     (if m_stroke c then
        [ExporterPlot \<lparr>path = transform (m_path c) (to_root c), dashes = m_dasharray c,
           inverse_transform = inverse_transform_of (to_root c)\<rparr>]
      else [])"
proof (cases "m_fill_fragment_iri c = []")
  case True
  then show ?thesis by (simp add: on_exit_element_no_fill)
next
  case False
  with assms show ?thesis
    by (simp add: on_exit_element_fill split: option.splits)
qed

text \<open>
  A shape with the outline \<open>M 0 0 L 10 0 Z\<close>, a dasharray \<open>[4, 2]\<close>, a fill that
  refers to the pattern \<open>pat1\<close> and the composed transform \<open>translate(5, 5)\<close>: the
  pattern is traversed over the transformed outline, then the outline is plotted once.
\<close>

theorem finalization_order_witness:
  "snd (on_exit_element (returns_normally :: (nat, unit) engine) [(''pat1'', 1)]
      (after [PathMoveTo 0 0, PathLineTo 10 0, PathCloseSubpath,
              SetFill (iri_fragment ''pat1''), SetStrokeDasharray [4, 2]]
         (ShapeContext_new (translate 5 5)))) = None \<and>
   fst (on_exit_element (returns_normally :: (nat, unit) engine) [(''pat1'', 1)]
      (after [PathMoveTo 0 0, PathLineTo 10 0, PathCloseSubpath,
              SetFill (iri_fragment ''pat1''), SetStrokeDasharray [4, 2]]
         (ShapeContext_new (translate 5 5)))) =
     [FindById ''pat1'',
      LoadReferencedElement (Some 1)
        [MoveCommand (5, 5), LineCommand (15, 5), CloseSubpathCommand],
      ExporterPlot
        \<lparr>path = [MoveCommand (5, 5), LineCommand (15, 5), CloseSubpathCommand],
           dashes = [4, 2], inverse_transform = translate (- 5) (- 5)\<rparr>]"
proof -
  let ?c = "after [PathMoveTo 0 0, PathLineTo 10 0, PathCloseSubpath,
              SetFill (iri_fragment ''pat1''), SetStrokeDasharray [4, 2]]
         (ShapeContext_new (translate 5 5))"
  have h: "snd (on_exit_element (returns_normally :: (nat, unit) engine) [(''pat1'', 1)] ?c)
      = None"
    by (simp add: handler_defs exit_defs)
  show ?thesis
    using h finalization_order [OF h] by (simp add: handler_defs exit_defs)
qed

subsection \<open>A fill reference to a missing id\<close>

text \<open>
  Claim C1, as amended. For a shape whose fill reference is not empty and maps to no
  node of the document, element exit has no branch for the missing node: it looks the
  id up and hands the absent result to the engine's \<^verbatim>\<open>load_referenced_element\<close>, once,
  with the transformed outline. Element exit raises nothing of its own: if the engine
  returns normally from that call, the rest of finalization (the plot, if stroke is
  enabled) follows as usual; if the engine raises, its exception leaves element exit
  before any plot.
\<close>

theorem missing_fill_id_reaches_engine:
  assumes "m_fill_fragment_iri c \<noteq> []" and "find_by_id doc (m_fill_fragment_iri c) = None"
  shows "on_exit_element load doc c =
     (case load None (c\<lparr>m_path := transform (m_path c) (to_root c)\<rparr>) of
        None \<Rightarrow>
          ([FindById (m_fill_fragment_iri c),
            LoadReferencedElement None (transform (m_path c) (to_root c))] @
           (if m_stroke c then
              [ExporterPlot \<lparr>path = transform (m_path c) (to_root c), dashes = m_dasharray c,
                 inverse_transform = inverse_transform_of (to_root c)\<rparr>]
            else []), None)
      | Some e \<Rightarrow>
          ([FindById (m_fill_fragment_iri c),
            LoadReferencedElement None (transform (m_path c) (to_root c))], Some e))"
  unfolding on_exit_element_fill [OF assms(1)] assms(2) ..

theorem missing_fill_id_reaches_engine_witness:
  "m_fill_fragment_iri (after [PathMoveTo 0 0, PathLineTo 10 0, SetFill (iri_fragment ''missing'')]
      (ShapeContext_new (translate 5 5))) = ''missing'' \<and>
   find_by_id [(''pat1'', 1 :: nat)] ''missing'' = None \<and>
   on_exit_element (returns_normally :: (nat, unit) engine) [(''pat1'', 1)]
     (after [PathMoveTo 0 0, PathLineTo 10 0, SetFill (iri_fragment ''missing'')]
        (ShapeContext_new (translate 5 5))) =
     ([FindById ''missing'',
       LoadReferencedElement None [MoveCommand (5, 5), LineCommand (15, 5)],
       ExporterPlot \<lparr>path = [MoveCommand (5, 5), LineCommand (15, 5)], dashes = [],
         inverse_transform = translate (- 5) (- 5)\<rparr>], None)"
proof -
  let ?c = "after [PathMoveTo 0 0, PathLineTo 10 0, SetFill (iri_fragment ''missing'')]
      (ShapeContext_new (translate 5 5))"
  have f: "m_fill_fragment_iri ?c = ''missing''"
    by (simp add: handler_defs)
  have h1: "m_fill_fragment_iri ?c \<noteq> []"
    by (simp add: f)
  have h2: "find_by_id [(''pat1'', 1 :: nat)] (m_fill_fragment_iri ?c) = None"
    by (simp add: f find_by_id_def)
  show ?thesis
    using f h2
      missing_fill_id_reaches_engine [OF h1 h2, of "returns_normally :: (nat, unit) engine"]
    by (simp add: handler_defs exit_defs)
qed

text \<open>
  The claim as it was stated, that for a missing id no sub-traversal is performed and
  fill resolution is skipped, fails: with an empty document and the fill reference
  \<open>missing\<close>, element exit calls the engine on the absent node.
\<close>

theorem missing_fill_id_counterexample:
  "find_by_id ([] :: nat document) ''missing'' = None \<and>
   list_ex is_sub_traversal
     (fst (on_exit_element (returns_normally :: (nat, unit) engine) []
        (after [SetFill (iri_fragment ''missing'')] (ShapeContext_new identity)))) \<and>
   fst (on_exit_element (returns_normally :: (nat, unit) engine) []
        (after [SetFill (iri_fragment ''missing'')] (ShapeContext_new identity))) =
     [FindById ''missing'', LoadReferencedElement None [],
      ExporterPlot \<lparr>path = [], dashes = [], inverse_transform = identity\<rparr>]"
  by (simp add: handler_defs exit_defs)

subsection \<open>Suppressed stroke\<close>

text \<open>
  Claim C4. A shape that receives a \<^verbatim>\<open>stroke = none\<close> event before element exit is
  never plotted, whatever its fill reference is; fill resolution still takes place: when
  the fill reference is not empty the id is looked up and the node handed to the engine
  over the transformed outline, and these are the only calls element exit makes.
\<close>

theorem stroke_none_suppresses_plot:
  assumes "SetStroke value_none \<in> set es"
  shows "plotted (fst (on_exit_element load doc (after es c))) = [] \<and>
     fst (on_exit_element load doc (after es c)) =
       (if m_fill_fragment_iri (after es c) = [] then []
        else [FindById (m_fill_fragment_iri (after es c)),
              LoadReferencedElement (find_by_id doc (m_fill_fragment_iri (after es c)))
                (transform (m_path (after es c)) (to_root c))])"
  using assms by (simp add: after_stroke on_exit_element_calls_no_stroke after_to_root)

text \<open>
  A shape with \<^verbatim>\<open>stroke = none\<close> and a fill that refers to the pattern \<open>pat1\<close>: the
  pattern is traversed, nothing is plotted.
\<close>

theorem stroke_none_suppresses_plot_witness:
  "SetStroke value_none \<in>
     set [PathMoveTo 0 0, PathLineTo 10 0, SetStroke value_none, SetFill (iri_fragment ''pat1'')] \<and>
   plotted (fst (on_exit_element (returns_normally :: (nat, unit) engine) [(''pat1'', 1)]
     (after [PathMoveTo 0 0, PathLineTo 10 0, SetStroke value_none,
             SetFill (iri_fragment ''pat1'')]
        (ShapeContext_new (translate 5 5))))) = [] \<and>
   fst (on_exit_element (returns_normally :: (nat, unit) engine) [(''pat1'', 1)]
     (after [PathMoveTo 0 0, PathLineTo 10 0, SetStroke value_none,
             SetFill (iri_fragment ''pat1'')]
        (ShapeContext_new (translate 5 5)))) =
     [FindById ''pat1'',
      LoadReferencedElement (Some 1) [MoveCommand (5, 5), LineCommand (15, 5)]]"
proof -
  have h: "SetStroke value_none \<in>
     set [PathMoveTo 0 0, PathLineTo 10 0, SetStroke value_none, SetFill (iri_fragment ''pat1'')]"
    by simp
  show ?thesis
    using h
      stroke_none_suppresses_plot [OF h, of "returns_normally :: (nat, unit) engine"
        "[(''pat1'', 1)]" "ShapeContext_new (translate 5 5)"]
    by (simp add: handler_defs exit_defs)
qed

text \<open>
  Claim C10. Stroke suppression cannot be undone: once the stroke flag of a context is
  false, it is false after any further event (no handler assigns true, and an
  unsupported stroke value leaves the flag as it is) and after any sequence of events,
  and element exit then plots nothing.
\<close>

theorem stroke_suppression_is_irreversible:
  assumes "\<not> m_stroke c"
  shows "\<not> m_stroke (snd (deliver e c)) \<and> \<not> m_stroke (after es c) \<and>
     plotted (fst (on_exit_element load doc (after es c))) = []"
  using assms by (simp add: after_stroke deliver_stroke on_exit_element_calls_no_stroke)

theorem stroke_suppression_is_irreversible_witness:
  "\<not> m_stroke (after [SetStroke value_none] (ShapeContext_new identity)) \<and>
   \<not> m_stroke (snd (deliver (SetStroke (color 255))
       (after [SetStroke value_none] (ShapeContext_new identity)))) \<and>
   \<not> m_stroke (after [SetStroke (color 255), SetStroke value_currentColor, PathMoveTo 0 0,
                       SetFill value_none, SetStrokeDasharray [1]]
       (after [SetStroke value_none] (ShapeContext_new identity))) \<and>
   plotted (fst (on_exit_element (returns_normally :: (nat, unit) engine) []
     (after [SetStroke (color 255), SetStroke value_currentColor, PathMoveTo 0 0,
             SetFill value_none, SetStrokeDasharray [1]]
        (after [SetStroke value_none] (ShapeContext_new identity))))) = []"
proof -
  have h: "\<not> m_stroke (after [SetStroke value_none] (ShapeContext_new identity))"
    by (simp add: handler_defs)
  show ?thesis
    using h
      stroke_suppression_is_irreversible [OF h, of "SetStroke (color 255)"
        "[SetStroke (color 255), SetStroke value_currentColor, PathMoveTo 0 0,
          SetFill value_none, SetStrokeDasharray [1]]"
        "returns_normally :: (nat, unit) engine" "[]"]
    by simp
qed

subsection \<open>Unsupported paint values\<close>

text \<open>
  Claim C5. A \<^verbatim>\<open>stroke\<close> or \<^verbatim>\<open>fill\<close> event whose value is of a kind the context does
  not model only logs one message, at debug level when the value is a simple colour and
  as a warning otherwise, and returns the context as it was: the stroke flag, the fill
  reference, the dasharray and the path are unchanged. The handlers have no failing
  branch.
\<close>

theorem unsupported_paint_only_logs:
  "(\<not> supported_stroke args \<longrightarrow>
      deliver (SetStroke args) c =
        ([if is_simple_color args
          then LoggerDebug ''Ignoring color value for attribute stroke''
          else LoggerWarn ''Unsupported value type for attribute stroke''], c)) \<and>
   (\<not> supported_fill args \<longrightarrow>
      deliver (SetFill args) c =
        ([if is_simple_color args
          then LoggerDebug ''Ignoring color value for attribute fill''
          else LoggerWarn ''Unsupported value type for attribute fill''], c))"
  by (cases args) simp_all

text \<open>A colour is logged at debug level, a gradient reference with a fallback is warned about.\<close>

theorem unsupported_paint_only_logs_witness:
  "\<not> supported_stroke (color 255) \<and> \<not> supported_fill (color 255) \<and>
   deliver (SetStroke (color 255)) (ShapeContext_new identity) =
     ([LoggerDebug ''Ignoring color value for attribute stroke''], ShapeContext_new identity) \<and>
   deliver (SetFill (color 255)) (ShapeContext_new identity) =
     ([LoggerDebug ''Ignoring color value for attribute fill''], ShapeContext_new identity) \<and>
   \<not> supported_stroke (iri_fragment_with_fallback ''gradient'' fallback_none) \<and>
   \<not> supported_fill (iri_fragment_with_fallback ''gradient'' fallback_none) \<and>
   deliver (SetStroke (iri_fragment_with_fallback ''gradient'' fallback_none))
       (ShapeContext_new identity) =
     ([LoggerWarn ''Unsupported value type for attribute stroke''], ShapeContext_new identity) \<and>
   deliver (SetFill (iri_fragment_with_fallback ''gradient'' fallback_none))
       (ShapeContext_new identity) =
     ([LoggerWarn ''Unsupported value type for attribute fill''], ShapeContext_new identity)"
proof -
  have h1: "\<not> supported_stroke (color 255)" "\<not> supported_fill (color 255)"
    by simp_all
  have h2: "\<not> supported_stroke (iri_fragment_with_fallback ''gradient'' fallback_none)"
    "\<not> supported_fill (iri_fragment_with_fallback ''gradient'' fallback_none)"
    by simp_all
  have "is_simple_color (color 255)"
    and "\<not> is_simple_color (iri_fragment_with_fallback ''gradient'' fallback_none)"
    by simp_all
  then show ?thesis
    using h1 h2
      unsupported_paint_only_logs [of "color 255" "ShapeContext_new identity"]
      unsupported_paint_only_logs [of "iri_fragment_with_fallback ''gradient'' fallback_none"
        "ShapeContext_new identity"]
    by presburger
qed

subsection \<open>Defaults\<close>

text \<open>
  Claim C9. A new shape context that receives no \<^verbatim>\<open>fill\<close>, \<^verbatim>\<open>stroke\<close> or
  \<^verbatim>\<open>stroke-dasharray\<close> event finalizes with the defaults: stroke enabled, an empty
  dasharray and an empty fill reference (no fill, not black). Element exit then makes
  exactly one call, the plot of the transformed outline with no dashes: no lookup and no
  sub-traversal take place.
\<close>

theorem defaults_without_attribute_events:
  assumes "\<forall>e\<in>set es. \<not> is_attribute_event e"
  shows "m_stroke (after es (ShapeContext_new T)) \<and>
     m_dasharray (after es (ShapeContext_new T)) = [] \<and>
     m_fill_fragment_iri (after es (ShapeContext_new T)) = [] \<and>
     on_exit_element load doc (after es (ShapeContext_new T)) =
       ([ExporterPlot \<lparr>path = transform (concat (map command_of es)) T, dashes = [],
           inverse_transform = inverse_transform_of T\<rparr>], None)"
proof -
  let ?c = "after es (ShapeContext_new T)"
  have kinds: "\<forall>e\<in>set es. \<not> is_dasharray_event e" "\<forall>e\<in>set es. \<not> writes_fill_reference e"
    "SetStroke value_none \<notin> set es"
    using assms attribute_event_kinds by blast+
  have s: "m_stroke ?c"
    using kinds(3) by (simp add: after_stroke ShapeContext_new_def)
  have d: "m_dasharray ?c = []"
    using kinds(1) by (simp add: after_dasharray ShapeContext_new_def)
  have f: "m_fill_fragment_iri ?c = []"
    using kinds(2) by (simp add: after_fill ShapeContext_new_def)
  have p: "m_path ?c = concat (map command_of es)"
    by (simp add: after_path ShapeContext_new_def)
  have t: "to_root ?c = T"
    by (simp add: after_to_root ShapeContext_new_def)
  show ?thesis
    using s d f p t by (simp add: on_exit_element_no_fill)
qed

text \<open>
  The outline \<open>M 0 0 L 10 0 Z\<close> under \<open>translate(5, 5)\<close> with no attribute event is
  plotted once as \<open>M 5 5 L 15 5 Z\<close>, undashed.
\<close>

theorem defaults_without_attribute_events_witness:
  "\<not> list_ex is_attribute_event [PathMoveTo 0 0, PathLineTo 10 0, PathCloseSubpath, PathExit] \<and>
   on_exit_element (returns_normally :: (nat, unit) engine) [(''pat1'', 1)]
     (after [PathMoveTo 0 0, PathLineTo 10 0, PathCloseSubpath, PathExit]
        (ShapeContext_new (translate 5 5))) =
     ([ExporterPlot
         \<lparr>path = [MoveCommand (5, 5), LineCommand (15, 5), CloseSubpathCommand],
            dashes = [], inverse_transform = translate (- 5) (- 5)\<rparr>], None)"
proof -
  have h: "\<forall>e\<in>set [PathMoveTo 0 0, PathLineTo 10 0, PathCloseSubpath, PathExit].
      \<not> is_attribute_event e"
    by simp
  have p: "transform [MoveCommand (0, 0), LineCommand (10, 0), CloseSubpathCommand]
        (translate 5 5) =
      [MoveCommand (5, 5), LineCommand (15, 5), CloseSubpathCommand]"
    by (simp add: transform_def apply_point_def translate_def)
  have i: "inverse_transform_of (translate 5 5) = translate (- 5) (- 5)"
    by (simp add: inverse_transform_of_def determinant_def translate_def)
  show ?thesis
    using defaults_without_attribute_events [OF h, of "translate 5 5"
        "returns_normally :: (nat, unit) engine" "[(''pat1'', 1)]"]
    by (simp add: p i)
qed

subsection \<open>Last write wins\<close>

text \<open>
  Claim C8. Attribute resolution is last-write-wins over any number of events. If the
  last \<^verbatim>\<open>stroke-dasharray\<close> event is \<^verbatim>\<open>none\<close>, the dasharray at finalize is empty,
  whatever it was before, and so are the dashes of whatever is plotted; if it is a list,
  the dasharray is that list, in place of what was stored. If the last \<^verbatim>\<open>fill\<close> event
  of a supported kind is \<^verbatim>\<open>none\<close>, the fill reference is empty and element exit
  performs no lookup and no sub-traversal; if it is a reference, the fill reference is
  that id.
\<close>

theorem last_write_wins:
  "((\<forall>e\<in>set es2. \<not> is_dasharray_event e) \<longrightarrow>
      m_dasharray (after (es1 @ SetStrokeDasharrayNone # es2) c) = [] \<and>
      (\<forall>dashed_path\<in>set (plotted (fst (on_exit_element load doc
           (after (es1 @ SetStrokeDasharrayNone # es2) c)))). dashes dashed_path = []) \<and>
      m_dasharray (after (es1 @ SetStrokeDasharray values # es2) c) = values) \<and>
   ((\<forall>e\<in>set es2. \<not> writes_fill_reference e) \<longrightarrow>
      m_fill_fragment_iri (after (es1 @ SetFill value_none # es2) c) = [] \<and>
      \<not> list_ex is_lookup (fst (on_exit_element load doc
           (after (es1 @ SetFill value_none # es2) c))) \<and>
      \<not> list_ex is_sub_traversal (fst (on_exit_element load doc
           (after (es1 @ SetFill value_none # es2) c))) \<and>
      m_fill_fragment_iri (after (es1 @ SetFill (iri_fragment ident) # es2) c) = ident)"
proof (intro conjI impI)
  assume d: "\<forall>e\<in>set es2. \<not> is_dasharray_event e"
  show none: "m_dasharray (after (es1 @ SetStrokeDasharrayNone # es2) c) = []"
    using d by (simp add: after_last_write after_dasharray set_stroke_dasharray_none_def)
  show "\<forall>dashed_path\<in>set (plotted (fst (on_exit_element load doc
           (after (es1 @ SetStrokeDasharrayNone # es2) c)))). dashes dashed_path = []"
    using plotted_dashes [of load doc "after (es1 @ SetStrokeDasharrayNone # es2) c"] none
    by simp
  show "m_dasharray (after (es1 @ SetStrokeDasharray values # es2) c) = values"
    using d by (simp add: after_last_write after_dasharray set_stroke_dasharray_def)
next
  assume f: "\<forall>e\<in>set es2. \<not> writes_fill_reference e"
  show none: "m_fill_fragment_iri (after (es1 @ SetFill value_none # es2) c) = []"
    using f by (simp add: after_last_write after_fill)
  show "\<not> list_ex is_lookup (fst (on_exit_element load doc
           (after (es1 @ SetFill value_none # es2) c)))"
    using none by (simp add: no_fill_no_lookup)
  show "\<not> list_ex is_sub_traversal (fst (on_exit_element load doc
           (after (es1 @ SetFill value_none # es2) c)))"
    using none by (simp add: no_fill_no_lookup)
  show "m_fill_fragment_iri (after (es1 @ SetFill (iri_fragment ident) # es2) c) = ident"
    using f by (simp add: after_last_write after_fill)
qed

text \<open>
  A shape that first sets the dasharray \<open>[4, 2]\<close> and the fill \<open>pat1\<close>, then
  overwrites them, and then receives a move, and a colour for stroke and for fill.
\<close>

theorem last_write_wins_witness:
  "\<not> list_ex is_dasharray_event [PathMoveTo 0 0, SetStroke (color 0), SetFill (color 0)] \<and>
   \<not> list_ex writes_fill_reference [PathMoveTo 0 0, SetStroke (color 0), SetFill (color 0)] \<and>
   m_dasharray (after ([SetStrokeDasharray [4, 2], SetFill (iri_fragment ''pat1'')] @
       SetStrokeDasharrayNone # [PathMoveTo 0 0, SetStroke (color 0), SetFill (color 0)])
     (ShapeContext_new identity)) = [] \<and>
   m_dasharray (after ([SetStrokeDasharray [4, 2], SetFill (iri_fragment ''pat1'')] @
       SetStrokeDasharray [1, 3] # [PathMoveTo 0 0, SetStroke (color 0), SetFill (color 0)])
     (ShapeContext_new identity)) = [1, 3] \<and>
   m_fill_fragment_iri (after ([SetStrokeDasharray [4, 2], SetFill (iri_fragment ''pat1'')] @
       SetFill value_none # [PathMoveTo 0 0, SetStroke (color 0), SetFill (color 0)])
     (ShapeContext_new identity)) = [] \<and>
   \<not> list_ex is_lookup (fst (on_exit_element (returns_normally :: (nat, unit) engine)
     [(''pat1'', 1)]
     (after ([SetStrokeDasharray [4, 2], SetFill (iri_fragment ''pat1'')] @
         SetFill value_none # [PathMoveTo 0 0, SetStroke (color 0), SetFill (color 0)])
       (ShapeContext_new identity)))) \<and>
   m_fill_fragment_iri (after ([SetStrokeDasharray [4, 2], SetFill (iri_fragment ''pat1'')] @
       SetFill (iri_fragment ''pat2'') # [PathMoveTo 0 0, SetStroke (color 0), SetFill (color 0)])
     (ShapeContext_new identity)) = ''pat2''"
proof -
  have h1: "\<forall>e\<in>set [PathMoveTo 0 0, SetStroke (color 0), SetFill (color 0)].
      \<not> is_dasharray_event e"
    by simp
  have h2: "\<forall>e\<in>set [PathMoveTo 0 0, SetStroke (color 0), SetFill (color 0)].
      \<not> writes_fill_reference e"
    by simp
  show ?thesis
    using h1 h2
      last_write_wins [of "[PathMoveTo 0 0, SetStroke (color 0), SetFill (color 0)]"
        "[SetStrokeDasharray [4, 2], SetFill (iri_fragment ''pat1'')]"
        "ShapeContext_new identity" "returns_normally :: (nat, unit) engine"
        "[(''pat1'', 1)]" "[1, 3]" "''pat2''"]
    by simp
qed

subsection \<open>What is registered for processing\<close>








end
